theory Spec2Isabelle
  imports Main "HOL-Library.AList" "HOL-Library.Sublist"
begin

section \<open>JavaScript values used by the harness\<close>

text \<open>
  Cells of a sheet, lookup values and the entries of \<open>testData\<close> are typed \<open>any\<close> in the
  source. The model keeps the scalar values a spreadsheet cell can hold. A number is an
  integer (\<open>Whole\<close>), NaN, or any other number, a fraction or an infinity, which is
  identified by the decimal string JavaScript prints for it (\<open>Inexact\<close>). Strings are
  lists of 8-bit characters.
\<close>

datatype number = Whole int | Inexact string | NaN

datatype jsval = JUndefined | JBool bool | JNum number | JStr string

text \<open>\<open>a === b\<close>: equal tags and equal contents, except that NaN differs from itself.\<close>

fun strict_eq :: "jsval \<Rightarrow> jsval \<Rightarrow> bool" where
  "strict_eq (JNum NaN) _ = False"
| "strict_eq _ (JNum NaN) = False"
| "strict_eq a b = (a = b)"

text \<open>\<open>!v\<close> is true for the falsy values: undefined, false, 0, NaN and the empty string.\<close>

fun falsy :: "jsval \<Rightarrow> bool" where
  "falsy JUndefined = True"
| "falsy (JBool b) = (\<not> b)"
| "falsy (JNum (Whole i)) = (i = 0)"
| "falsy (JNum (Inexact s)) = False"
| "falsy (JNum NaN) = True"
| "falsy (JStr s) = (s = [])"

definition digit_char :: "nat \<Rightarrow> char" where
  "digit_char d = ''0123456789'' ! d"

fun nat_to_string :: "nat \<Rightarrow> string" where
  "nat_to_string n =
     (if n < 10 then [digit_char n]
      else nat_to_string (n div 10) @ [digit_char (n mod 10)])"

declare nat_to_string.simps [simp del]

definition int_to_string :: "int \<Rightarrow> string" where
  "int_to_string i = (if i < 0 then ''-'' @ nat_to_string (nat (- i)) else nat_to_string (nat i))"

text \<open>
  The string a template literal \<open>${v}\<close> inserts for a value. An integer within the safe
  range (up to \<open>2^53 - 1\<close> in magnitude) is printed with all its digits. Beyond it the
  engine prints the shortest digits that identify the double, in exponent form from
  \<open>10^21\<close> on; that printing is the parameter \<open>big\<close>.
\<close>

definition safe_integer :: "int \<Rightarrow> bool" where
  "safe_integer i = (- 9007199254740991 \<le> i \<and> i \<le> 9007199254740991)"

fun to_string :: "(int \<Rightarrow> string) \<Rightarrow> jsval \<Rightarrow> string" where
  "to_string big JUndefined = ''undefined''"
| "to_string big (JBool b) = (if b then ''true'' else ''false'')"
| "to_string big (JNum (Whole i)) = (if safe_integer i then int_to_string i else big i)"
| "to_string big (JNum (Inexact s)) = s"
| "to_string big (JNum NaN) = ''NaN''"
| "to_string big (JStr s) = s"

text \<open>
  A Row Record is an object from column name to cell; \<open>row[key]\<close> of a column the row
  does not have is \<open>undefined\<close>. Column names are taken to be other than the names a
  row object inherits (\<open>constructor\<close>, \<open>toString\<close> and the like), for which the code
  yields the inherited member.
\<close>

type_synonym row = "(string \<times> jsval) list"

definition row_get :: "row \<Rightarrow> string \<Rightarrow> jsval" where
  "row_get r k = (case map_of r k of None \<Rightarrow> JUndefined | Some v \<Rightarrow> v)"

definition squote :: string where
  "squote = [CHR 0x27]"

definition dquote :: string where
  "dquote = [CHR 0x22]"

datatype error = Error string | TypeError string


section \<open>src/utils/logger.ts\<close>

datatype LogLevel = DEBUG | INFO | WARN | ERROR | SILENT

fun level_num :: "LogLevel \<Rightarrow> nat" where
  "level_num DEBUG = 0"
| "level_num INFO = 1"
| "level_num WARN = 2"
| "level_num ERROR = 3"
| "level_num SILENT = 4"

text \<open>
  One line written to the console: its level, the message and the extra arguments.
  The timestamp prefix of the real line is left out.
\<close>

datatype log_entry = LogEntry LogLevel string "string list"

definition Logger_log :: "LogLevel \<Rightarrow> LogLevel \<Rightarrow> string \<Rightarrow> string list \<Rightarrow> log_entry list \<Rightarrow> log_entry list" where
  "Logger_log current level message args console =
     (if level_num level \<ge> level_num current
      then (if level = SILENT then console else console @ [LogEntry level message args])
      else console)"


section \<open>src/utils/dataService.ts\<close>

text \<open>
  The workbook \<open>XLSX.readFile\<close> returns: the sheet names in file order and the object
  from sheet name to worksheet. The worksheet type is left open.
\<close>

record 'ws workbook =
  SheetNames :: "string list"
  Sheets :: "string \<rightharpoonup> 'ws"

text \<open>
  What the service takes from its surroundings: the process working directory, the
  \<open>path\<close> functions, the two functions of the \<open>xlsx\<close> library (\<open>Inl\<close> carries the
  message of the exception when they throw), the logger's minimum level, and the names
  of the members the engine puts on \<open>Object.prototype\<close> (other than \<open>__proto__\<close>) and on
  \<open>Array.prototype\<close>.
\<close>

record 'ws runtime =
  cwd :: string
  isAbsolute :: "string \<Rightarrow> bool"
  path_join :: "string \<Rightarrow> string \<Rightarrow> string"
  readFile :: "string \<Rightarrow> string + 'ws workbook"
  sheet_to_json :: "'ws option \<Rightarrow> string + row list"
  CURRENT_LOG_LEVEL :: LogLevel
  Object_prototype :: "string list"
  Array_prototype :: "string list"

text \<open>
  The singleton's state. The Data Cache is a plain object \<open>{}\<close> used as a dictionary:
  \<open>cache\<close> holds its own properties in insertion order, and \<open>proto\<close> records an array
  that an assignment to \<open>__proto__\<close> has made its prototype (\<open>None\<close> while the prototype
  is still \<open>Object.prototype\<close>). \<open>console\<close> is what the logger has written.
\<close>

record ds_state =
  cache :: "(string \<times> row list) list"
  proto :: "row list option"
  console :: "log_entry list"

text \<open>
  What \<open>this.cache[name]\<close> can yield besides \<open>undefined\<close>: the rows of a sheet, or,
  through the prototype chain, a function or object of a built-in prototype
  (\<open>Member\<close>), an element of the prototype array or its \<open>length\<close>.
\<close>

datatype cached = Rows "row list" | Member | Element row | Length nat

definition array_index :: "string \<Rightarrow> nat \<Rightarrow> nat option" where
  "array_index name n = find (\<lambda>i. nat_to_string i = name) [0..<n]"

definition inherited_get :: "'ws runtime \<Rightarrow> ds_state \<Rightarrow> string \<Rightarrow> cached option" where
  "inherited_get rt st name =
     (case proto st of
        None \<Rightarrow>
          if name = ''__proto__'' \<or> name \<in> set (Object_prototype rt) then Some Member else None
      | Some arr \<Rightarrow>
          if name = ''__proto__'' then Some (Rows arr)
          else case array_index name (length arr) of
                 Some i \<Rightarrow> Some (Element (arr ! i))
               | None \<Rightarrow>
                   if name = ''length'' then Some (Length (length arr))
                   else if name \<in> set (Array_prototype rt) \<or> name \<in> set (Object_prototype rt)
                        then Some Member else None)"

text \<open>\<open>this.cache[name]\<close>: an own property first, then the prototype chain.\<close>

definition cache_get :: "'ws runtime \<Rightarrow> ds_state \<Rightarrow> string \<Rightarrow> cached option" where
  "cache_get rt st name =
     (case map_of (cache st) name of
        Some rows \<Rightarrow> Some (Rows rows)
      | None \<Rightarrow> inherited_get rt st name)"

text \<open>
  \<open>this.cache[name] = data\<close>: \<open>__proto__\<close> is an accessor of \<open>Object.prototype\<close>, so the
  assignment makes the array the prototype of the cache and adds no key; every other
  name becomes or overwrites an own property.
\<close>

definition cache_set :: "string \<Rightarrow> row list \<Rightarrow> ds_state \<Rightarrow> ds_state" where
  "cache_set name data st =
     (if name = ''__proto__'' then st\<lparr>proto := Some data\<rparr>
      else st\<lparr>cache := AList.update name data (cache st)\<rparr>)"

definition logger :: "'ws runtime \<Rightarrow> LogLevel \<Rightarrow> string \<Rightarrow> string list \<Rightarrow> ds_state \<Rightarrow> ds_state" where
  "logger rt level message args st =
     st\<lparr>console := Logger_log (CURRENT_LOG_LEVEL rt) level message args (console st)\<rparr>"

definition EXCEL_FILE_PATH :: "'ws runtime \<Rightarrow> string" where
  "EXCEL_FILE_PATH rt = path_join rt (cwd rt) ''test_data.xlsx''"

text \<open>The body of \<open>workbook.SheetNames.forEach\<close>, stopping at the first exception.\<close>

fun store_sheets :: "'ws runtime \<Rightarrow> 'ws workbook \<Rightarrow> string list \<Rightarrow> ds_state \<Rightarrow> (string + unit) \<times> ds_state" where
  "store_sheets rt wb [] st = (Inr (), st)"
| "store_sheets rt wb (sheetName # rest) st =
     (let worksheet = Sheets wb sheetName in
      case sheet_to_json rt worksheet of
        Inl msg \<Rightarrow> (Inl msg, st)
      | Inr data \<Rightarrow>
          store_sheets rt wb rest
            (logger rt INFO
               (''Successfully loaded '' @ nat_to_string (length data) @ '' rows from sheet: '' @ sheetName) []
               (cache_set sheetName data st)))"

definition resolve_path :: "'ws runtime \<Rightarrow> string \<Rightarrow> string" where
  "resolve_path rt filePath =
     (if \<not> isAbsolute rt filePath then path_join rt (cwd rt) filePath else filePath)"

definition load_failed :: "'ws runtime \<Rightarrow> string \<Rightarrow> string \<Rightarrow> ds_state \<Rightarrow> (error + unit) \<times> ds_state" where
  "load_failed rt filePath msg st =
     (Inl (Error (''DataService failed to load data: '' @ msg)),
      logger rt ERROR (''Failed to load Excel data from '' @ filePath @ ''. Error:'') [msg] st)"

definition loadData :: "'ws runtime \<Rightarrow> string \<Rightarrow> ds_state \<Rightarrow> (error + unit) \<times> ds_state" where
  "loadData rt filePath0 st0 =
     (let st1 = logger rt INFO (''Attempting to load data from: '' @ filePath0) [] st0;
          filePath = resolve_path rt filePath0
      in case readFile rt filePath of
           Inl msg \<Rightarrow> load_failed rt filePath msg st1
         | Inr workbook \<Rightarrow>
             (case store_sheets rt workbook (SheetNames workbook) st1 of
                (Inl msg, st2) \<Rightarrow> load_failed rt filePath msg st2
              | (Inr u, st2) \<Rightarrow>
                  (Inr (), logger rt INFO ''All data sheets loaded successfully.'' [] st2)))"

text \<open>The implicit \<open>this.loadData()\<close> of \<open>getData\<close>, on the default path.\<close>

definition lazy_load :: "'ws runtime \<Rightarrow> ds_state \<Rightarrow> (error + unit) \<times> ds_state" where
  "lazy_load rt st = loadData rt (EXCEL_FILE_PATH rt)
     (logger rt WARN ''Data cache is empty. Attempting to load data now.'' [] st)"

definition sheet_not_found :: "string \<Rightarrow> string" where
  "sheet_not_found sheetName = ''Sheet '' @ squote @ sheetName @ squote @ '' not found in Excel file.''"

text \<open>
  \<open>!data\<close> for a value other than \<open>undefined\<close>: true for the number 0, false for every
  object, an empty array included.
\<close>

fun not_data :: "cached \<Rightarrow> bool" where
  "not_data (Length n) = (n = 0)"
| "not_data d = False"


text \<open>
  The lines after the lazy load: \<open>const data = this.cache[sheetName]\<close>, the test
  \<open>!data\<close> and the return. The value returned is declared \<open>any[]\<close> but is whatever the
  lookup yields. In \<open>getData\<close>, \<open>Object.keys(this.cache).length === 0\<close> counts own
  properties only.
\<close>

definition lookup_sheet :: "'ws runtime \<Rightarrow> string \<Rightarrow> ds_state \<Rightarrow> (error + cached) \<times> ds_state" where
  "lookup_sheet rt sheetName st1 =
     (case cache_get rt st1 sheetName of
        None \<Rightarrow> (Inr (Rows []), logger rt ERROR (sheet_not_found sheetName) [] st1)
      | Some data \<Rightarrow>
          if not_data data
          then (Inr (Rows []), logger rt ERROR (sheet_not_found sheetName) [] st1)
          else (Inr data, st1))"

definition getData :: "'ws runtime \<Rightarrow> string \<Rightarrow> ds_state \<Rightarrow> (error + cached) \<times> ds_state" where
  "getData rt sheetName st0 =
     (case (if cache st0 = [] then lazy_load rt st0 else (Inr (), st0)) of
        (Inl e, st1) \<Rightarrow> (Inl e, st1)
      | (Inr u, st1) \<Rightarrow> lookup_sheet rt sheetName st1)"

text \<open>
  \<open>data.find(...)\<close>: only an array has the method; on a function, a row object or a
  number the call throws a TypeError.
\<close>

definition getSingleData :: "'ws runtime \<Rightarrow> string \<Rightarrow> string \<Rightarrow> jsval \<Rightarrow> ds_state \<Rightarrow> (error + row option) \<times> ds_state" where
  "getSingleData rt sheetName key v st0 =
     (case getData rt sheetName st0 of
        (Inl e, st1) \<Rightarrow> (Inl e, st1)
      | (Inr (Rows data), st1) \<Rightarrow> (Inr (find (\<lambda>row. strict_eq (row_get row key) v) data), st1)
      | (Inr other, st1) \<Rightarrow> (Inl (TypeError ''data.find is not a function''), st1))"

text \<open>The lookup of the name is answered by the prototype chain, not by a stored sheet.\<close>

definition reaches_prototype :: "'ws runtime \<Rightarrow> ds_state \<Rightarrow> string \<Rightarrow> bool" where
  "reaches_prototype rt st name = (map_of (cache st) name = None \<and> inherited_get rt st name \<noteq> None)"

text \<open>The rows stored for a sheet of a workbook (none when the conversion throws).\<close>

definition sheet_rows :: "'ws runtime \<Rightarrow> 'ws workbook \<Rightarrow> string \<Rightarrow> row list" where
  "sheet_rows rt wb n = (case sheet_to_json rt (Sheets wb n) of Inl _ \<Rightarrow> [] | Inr d \<Rightarrow> d)"


section \<open>src/config/config.ts\<close>

text \<open>
  \<open>process.env\<close> after \<open>dotenv.config\<close>: a partial map from variable name to string.
  \<open>process.env.X || d\<close> takes \<open>d\<close> when the variable is unset or empty.
\<close>

type_synonym process_env = "string \<rightharpoonup> string"

definition or_default :: "string option \<Rightarrow> string \<Rightarrow> string" where
  "or_default v d = (case v of None \<Rightarrow> d | Some s \<Rightarrow> if s = [] then d else s)"

text \<open>
  \<open>parseInt(s, 10)\<close>: skip leading white space (the ASCII part of it), take an optional
  sign, then the longest run of decimal digits; NaN when there is no digit.
\<close>

definition is_space :: "char \<Rightarrow> bool" where
  "is_space c = (c \<in> set [CHR 0x09, CHR 0x0A, CHR 0x0B, CHR 0x0C, CHR 0x0D, CHR 0x20])"

definition is_digit :: "char \<Rightarrow> bool" where
  "is_digit c = (c \<in> set ''0123456789'')"

definition digits_value :: "string \<Rightarrow> int" where
  "digits_value z = foldl (\<lambda>acc c. 10 * acc + (int (of_char c) - 48)) 0 z"

definition parse_digits :: "int \<Rightarrow> string \<Rightarrow> number" where
  "parse_digits sign s =
     (let z = takeWhile is_digit s in if z = [] then NaN else Whole (sign * digits_value z))"

definition parseInt :: "string \<Rightarrow> number" where
  "parseInt s =
     (case dropWhile is_space s of
        [] \<Rightarrow> NaN
      | c # r \<Rightarrow>
          if c = CHR ''-'' then parse_digits (- 1) r
          else if c = CHR ''+'' then parse_digits 1 r
          else parse_digits 1 (c # r))"

record IConfig =
  ENV :: string
  BASE_URL :: string
  HEADLESS :: bool
  SLOW_MO :: number
  TIMEOUT :: number
  BROWSER :: string
  VIEWPORT_WIDTH :: number
  VIEWPORT_HEIGHT :: number
  ALLURE_RESULTS_DIR :: string
  SCREENSHOT_ON_FAIL :: bool

text \<open>
  \<open>baseConfig\<close> is a partial object without \<open>BASE_URL\<close>; every branch of the switch sets
  that field, so the placeholder below never reaches the result.
\<close>

definition baseConfig :: "process_env \<Rightarrow> string \<Rightarrow> IConfig" where
  "baseConfig penv env =
     \<lparr>ENV = env,
      BASE_URL = [],
      HEADLESS = (if penv ''HEADLESS'' = Some ''false'' then False else True),
      SLOW_MO = parseInt (or_default (penv ''SLOW_MO'') ''0''),
      TIMEOUT = parseInt (or_default (penv ''TIMEOUT'') ''30000''),
      BROWSER = or_default (penv ''BROWSER'') ''chromium'',
      VIEWPORT_WIDTH = parseInt (or_default (penv ''VIEWPORT_WIDTH'') ''1920''),
      VIEWPORT_HEIGHT = parseInt (or_default (penv ''VIEWPORT_HEIGHT'') ''1080''),
      ALLURE_RESULTS_DIR = or_default (penv ''ALLURE_RESULTS_DIR'') ''allure-results'',
      SCREENSHOT_ON_FAIL = (if penv ''SCREENSHOT_ON_FAIL'' = Some ''true'' then True else False)\<rparr>"

definition getConfig :: "process_env \<Rightarrow> IConfig" where
  "getConfig penv =
     (let env = or_default (penv ''NODE_ENV'') ''local'';
          baseConfig = baseConfig penv env
      in if env = ''production'' then
           baseConfig\<lparr>BASE_URL := or_default (penv ''PROD_BASE_URL'') ''https://prod.example.com'',
                      HEADLESS := True,
                      SCREENSHOT_ON_FAIL := False\<rparr>
         else if env = ''staging'' then
           baseConfig\<lparr>BASE_URL := or_default (penv ''STAGING_BASE_URL'') ''https://staging.example.com'',
                      HEADLESS := True\<rparr>
         else if env = ''development'' then
           baseConfig\<lparr>BASE_URL := or_default (penv ''DEV_BASE_URL'') ''http://localhost:5173'',
                      HEADLESS := False\<rparr>
         else
           baseConfig\<lparr>BASE_URL := or_default (penv ''LOCAL_BASE_URL'') ''http://localhost:5173'',
                      HEADLESS := False,
                      SLOW_MO := Whole 50\<rparr>)"

text \<open>The variable that holds the base URL of a profile.\<close>

definition base_url_variable :: "string \<Rightarrow> string" where
  "base_url_variable env =
     (if env = ''production'' then ''PROD_BASE_URL''
      else if env = ''staging'' then ''STAGING_BASE_URL''
      else if env = ''development'' then ''DEV_BASE_URL''
      else ''LOCAL_BASE_URL'')"

section \<open>src/steps/loginSteps.ts\<close>

text \<open>\<open>s.replace(pat, rep)\<close> with a string pattern: the first occurrence is replaced.\<close>

fun replace_first :: "string \<Rightarrow> string \<Rightarrow> string \<Rightarrow> string" where
  "replace_first pat rep [] = (if pat = [] then rep else [])"
| "replace_first pat rep (c # cs) =
     (if prefix pat (c # cs) then rep @ drop (length pat) (c # cs)
      else c # replace_first pat rep cs)"

text \<open>
  What the step \<open>the login result should match the expected outcome\<close> asks of the page.
  The expectation on the header is created without \<open>await\<close>; the others are awaited or
  synchronous.
\<close>

datatype page_check =
    HeaderHasText string string
  | ErrorMessageDisplayed
  | ErrorMessageContains string
  | UrlContains string

definition todos_header :: string where
  "todos_header = ''[data-testid='' @ dquote @ ''todos-header'' @ dquote @ '']''"

definition success_branch :: "page_check list" where
  "success_branch = [HeaderHasText todos_header ''My Tasks'']"

definition error_branch :: "string \<Rightarrow> page_check list" where
  "error_branch expectedErrorMessage =
     [ErrorMessageDisplayed, ErrorMessageContains expectedErrorMessage, UrlContains ''/login'']"

text \<open>
  The step, as a function of \<open>this.testData.expectedResult\<close>: the error the step
  itself throws, or the checks of the branch it takes.
\<close>

definition login_result_should_match :: "jsval \<Rightarrow> error + page_check list" where
  "login_result_should_match expectedResult =
     (if falsy expectedResult then Inl (Error ''Expected result not set in test data.'')
      else case expectedResult of
             JStr s \<Rightarrow>
               if prefix ''Success'' s then Inr success_branch
               else if prefix ''Error:'' s then Inr (error_branch (replace_first ''Error: '' [] s))
               else Inl (Error (''Unknown expected result format: '' @ s))
           | _ \<Rightarrow> Inl (TypeError ''expectedResult.startsWith is not a function''))"


section \<open>src/data/generators/scenarioGenerator.ts\<close>

definition newline :: string where
  "newline = [CHR 0x0A]"

text \<open>The template literal appended for the row at \<open>index\<close> (counted from 0).\<close>

definition scenario_block :: "(int \<Rightarrow> string) \<Rightarrow> nat \<Rightarrow> row \<Rightarrow> string" where
  "scenario_block big index row =
     newline @ ''  Scenario: Login test #'' @ nat_to_string (index + 1) @
       '' ('' @ to_string big (row_get row ''username'') @ '')'' @ newline @
     ''    Given I login with username '' @ dquote @ to_string big (row_get row ''username'') @ dquote @
       '' and password '' @ dquote @ to_string big (row_get row ''password'') @ dquote @ newline @
     ''    Then Login should be successful'' @ newline"

text \<open>\<open>data.forEach((row, index) => featureContent += ...)\<close>, from a given index on.\<close>

fun forEach_rows :: "(int \<Rightarrow> string) \<Rightarrow> row list \<Rightarrow> nat \<Rightarrow> string \<Rightarrow> string" where
  "forEach_rows big [] index featureContent = featureContent"
| "forEach_rows big (row # rest) index featureContent =
     forEach_rows big rest (index + 1) (featureContent @ scenario_block big index row)"

definition feature_header :: string where
  "feature_header = ''Feature: Login DDT Tests'' @ newline"

text \<open>
  What the generator takes from its surroundings. \<open>getLoginTestData\<close> is the result of
  \<open>TestDataFactory.getLoginTestData()\<close>, which hands on what \<open>DataLoader.loadLoginData\<close>
  returns or throws; \<open>write_error\<close> gives the message of the exception
  \<open>fs.writeFileSync\<close> raises for a path, if it raises one; \<open>Number_toString\<close> is the
  engine's printing of an integer beyond the safe range.
\<close>

record gen_runtime =
  gen_cwd :: string
  join :: "string list \<Rightarrow> string"
  getLoginTestData :: "error + row list"
  write_error :: "string \<Rightarrow> string option"
  Number_toString :: "int \<Rightarrow> string"

definition outputPath :: "gen_runtime \<Rightarrow> string" where
  "outputPath g = join g [gen_cwd g, ''src'', ''features'', ''generated'', ''loginDDT.feature'']"

text \<open>The files on disk: a map from path to content.\<close>

definition generateLoginFeature :: "gen_runtime \<Rightarrow> (string \<rightharpoonup> string) \<Rightarrow> (error + unit) \<times> (string \<rightharpoonup> string)" where
  "generateLoginFeature g files =
     (case getLoginTestData g of
        Inl e \<Rightarrow> (Inl e, files)
      | Inr data \<Rightarrow>
          (let featureContent = forEach_rows (Number_toString g) data 0 feature_header in
           case write_error g (outputPath g) of
             Some msg \<Rightarrow> (Inl (Error msg), files)
           | None \<Rightarrow> (Inr (), files(outputPath g \<mapsto> featureContent))))"

section \<open>src/support/world.ts\<close>

text \<open>
  The part of \<open>CustomWorld\<close> the two methods read and write: the browser and page
  handles (absent until \<open>initBrowser\<close> ran), the configuration, the console, and the calls
  made to the browser driver.
\<close>

datatype ('b, 'p) driver_call = BrowserClose 'b | PageScreenshot 'p string

record ('b, 'p) world =
  browser :: "'b option"
  page :: "'p option"
  config :: IConfig
  wconsole :: "log_entry list"
  driver_calls :: "('b, 'p) driver_call list"

text \<open>
  The driver and the clock: \<open>browser_close\<close> gives the message of the rejection of
  \<open>browser.close()\<close>, if it rejects; \<open>page_screenshot\<close> gives the buffer or the message
  of the rejection; \<open>now\<close> is \<open>Date.now()\<close>.
\<close>

record ('b, 'p) driver =
  browser_close :: "'b \<Rightarrow> string option"
  page_screenshot :: "'p \<Rightarrow> string \<Rightarrow> string + string"
  now :: nat
  world_cwd :: string
  world_join :: "string list \<Rightarrow> string"
  world_log_level :: LogLevel

definition closeBrowser :: "('b, 'p) driver \<Rightarrow> ('b, 'p) world \<Rightarrow> (error + unit) \<times> ('b, 'p) world" where
  "closeBrowser d w =
     (case browser w of
        None \<Rightarrow> (Inr (), w)
      | Some b \<Rightarrow>
          (let w1 = w\<lparr>wconsole := Logger_log (world_log_level d) INFO ''Closing browser...'' [] (wconsole w),
                       driver_calls := driver_calls w @ [BrowserClose b]\<rparr>
           in case browser_close d b of
                Some msg \<Rightarrow> (Inl (Error msg), w1)
              | None \<Rightarrow> (Inr (), w1)))"

text \<open>\<open>scenarioName.replace(/\s/g, '_')\<close>\<close>

definition underscore_spaces :: "string \<Rightarrow> string" where
  "underscore_spaces s = map (\<lambda>c. if is_space c then CHR ''_'' else c) s"

definition takeScreenshot :: "('b, 'p) driver \<Rightarrow> string \<Rightarrow> ('b, 'p) world \<Rightarrow> (error + string option) \<times> ('b, 'p) world" where
  "takeScreenshot d scenarioName w =
     (case page w of
        None \<Rightarrow> (Inr None, w)
      | Some p \<Rightarrow>
          (let screenshotPath = world_join d
                 [world_cwd d, ALLURE_RESULTS_DIR (config w),
                  ''screenshot-'' @ underscore_spaces scenarioName @ ''-'' @ nat_to_string (now d) @ ''.png''];
               w1 = w\<lparr>wconsole := Logger_log (world_log_level d) DEBUG (''Taking screenshot: '' @ screenshotPath) [] (wconsole w),
                       driver_calls := driver_calls w @ [PageScreenshot p screenshotPath]\<rparr>
           in case page_screenshot d p screenshotPath of
                Inl msg \<Rightarrow> (Inl (Error msg), w1)
              | Inr buffer \<Rightarrow> (Inr (Some buffer), w1)))"

section \<open>Concrete inputs\<close>

subsection \<open>A small file system\<close>

text \<open>
  Two workbooks on disk: the test data under \<open>test-data/\<close> (where the hooks load it
  from) and an older file. The \<open>Login\<close> sheet has two rows with the same case identifier.
\<close>

definition demo_login_rows :: "row list" where
  "demo_login_rows =
     [[(''test_case_id'', JStr ''TC-LOGIN-001''), (''username'', JStr ''admin''),
       (''password'', JStr ''password''), (''expected_result'', JStr ''Success'')],
      [(''test_case_id'', JStr ''TC-LOGIN-002''), (''username'', JStr ''admin''),
       (''password'', JStr ''wrongpassword''), (''expected_result'', JStr ''Error: Invalid credentials'')],
      [(''test_case_id'', JStr ''TC-LOGIN-002''), (''username'', JStr ''guest''),
       (''password'', JStr ''guest''), (''expected_result'', JStr ''Success'')]]"

definition demo_archive_rows :: "row list" where
  "demo_archive_rows = [[(''test_case_id'', JStr ''TC-OLD-001'')]]"

definition demo_workbook :: "row list workbook" where
  "demo_workbook = \<lparr>SheetNames = [''Login''], Sheets = [''Login'' \<mapsto> demo_login_rows]\<rparr>"

definition demo_old_workbook :: "row list workbook" where
  "demo_old_workbook = \<lparr>SheetNames = [''Archive''], Sheets = [''Archive'' \<mapsto> demo_archive_rows]\<rparr>"

definition demo_rt :: "row list runtime" where
  "demo_rt = \<lparr>cwd = ''/repo'',
     isAbsolute = (\<lambda>p. prefix ''/'' p),
     path_join = (\<lambda>a b. a @ ''/'' @ b),
     readFile = (\<lambda>p. if p = ''/repo/test-data/test_data.xlsx'' then Inr demo_workbook
                      else if p = ''/repo/old.xlsx'' then Inr demo_old_workbook
                      else Inl ''ENOENT: no such file or directory''),
     sheet_to_json = (\<lambda>ws. case ws of None \<Rightarrow> Inr [] | Some rows \<Rightarrow> Inr rows),
     CURRENT_LOG_LEVEL = INFO,
     Object_prototype = [''constructor'', ''hasOwnProperty'', ''isPrototypeOf'',
       ''propertyIsEnumerable'', ''toLocaleString'', ''toString'', ''valueOf'',
       ''__defineGetter__'', ''__defineSetter__'', ''__lookupGetter__'', ''__lookupSetter__''],
     Array_prototype = [''constructor'', ''at'', ''concat'', ''copyWithin'', ''entries'', ''every'',
       ''fill'', ''filter'', ''find'', ''findIndex'', ''flat'', ''flatMap'', ''forEach'',
       ''includes'', ''indexOf'', ''join'', ''keys'', ''lastIndexOf'', ''map'', ''pop'', ''push'',
       ''reduce'', ''reduceRight'', ''reverse'', ''shift'', ''slice'', ''some'', ''sort'',
       ''splice'', ''toLocaleString'', ''toString'', ''unshift'', ''values'']\<rparr>"

definition archive_state :: ds_state where
  "archive_state = \<lparr>cache = [(''Archive'', demo_archive_rows)], proto = None, console = []\<rparr>"

definition empty_state :: ds_state where
  "empty_state = \<lparr>cache = [], proto = None, console = []\<rparr>"

definition loaded_state :: ds_state where
  "loaded_state = \<lparr>cache = [(''Login'', demo_login_rows)], proto = None, console = []\<rparr>"

subsection \<open>Process environments\<close>

definition staging_env :: process_env where
  "staging_env = [''NODE_ENV'' \<mapsto> ''staging'', ''HEADLESS'' \<mapsto> ''false'', ''SLOW_MO'' \<mapsto> ''100'',
                  ''TIMEOUT'' \<mapsto> ''5000'', ''STAGING_BASE_URL'' \<mapsto> ''https://stage.test'']"

definition local_env :: process_env where
  "local_env = [''HEADLESS'' \<mapsto> ''true'', ''SLOW_MO'' \<mapsto> ''100'']"

definition qa_env :: process_env where
  "qa_env = [''NODE_ENV'' \<mapsto> ''qa'', ''LOCAL_BASE_URL'' \<mapsto> ''http://qa.local'']"

definition blank_timeout_env :: process_env where
  "blank_timeout_env = [''TIMEOUT'' \<mapsto> []]"

subsection \<open>A generator run over an older file\<close>

text \<open>
  Four rows: string cells, a numeric password, a row without user name, and a user name
  of \<open>10^21\<close> (which the engine prints as \<open>1e+21\<close>) with a fractional password.
\<close>

definition gen_rows :: "row list" where
  "gen_rows =
     [[(''username'', JStr ''admin''), (''password'', JStr ''password'')],
      [(''username'', JStr ''guest''), (''password'', JNum (Whole 12345))],
      [(''password'', JBool True)],
      [(''username'', JNum (Whole 1000000000000000000000)), (''password'', JNum (Inexact ''1.5''))]]"

definition demo_gen :: gen_runtime where
  "demo_gen = \<lparr>gen_cwd = ''/repo'',
     join = (\<lambda>parts. case parts of [] \<Rightarrow> ''.'' | p # ps \<Rightarrow> foldl (\<lambda>a b. a @ ''/'' @ b) p ps),
     getLoginTestData = Inr gen_rows,
     write_error = (\<lambda>p. None),
     Number_toString = (\<lambda>i. ''1e+21'')\<rparr>"

definition stale_files :: "string \<rightharpoonup> string" where
  "stale_files = [''/repo/src/features/generated/loginDDT.feature'' \<mapsto> ''Feature: old'']"

subsection \<open>A world before its browser is opened\<close>

definition fresh_world :: "(nat, nat) world" where
  "fresh_world = \<lparr>browser = None, page = None, config = getConfig Map.empty,
                   wconsole = [], driver_calls = []\<rparr>"

definition demo_driver :: "(nat, nat) driver" where
  "demo_driver = \<lparr>browser_close = (\<lambda>b. None), page_screenshot = (\<lambda>p path. Inr ''PNG''),
                   now = 1700000000000, world_cwd = ''/repo'',
                   world_join = (\<lambda>parts. case parts of [] \<Rightarrow> ''.'' | p # ps \<Rightarrow> foldl (\<lambda>a b. a @ ''/'' @ b) p ps),
                   world_log_level = INFO\<rparr>"


section \<open>Properties of the data service\<close>

lemmas demo_defs = demo_rt_def demo_workbook_def demo_old_workbook_def empty_state_def loaded_state_def
  archive_state_def demo_login_rows_def demo_archive_rows_def

lemmas ds_defs = loadData_def load_failed_def resolve_path_def logger_def Logger_log_def
  getData_def lookup_sheet_def lazy_load_def sheet_not_found_def getSingleData_def EXCEL_FILE_PATH_def
  sheet_rows_def row_get_def squote_def cache_get_def inherited_get_def cache_set_def
  reaches_prototype_def

lemma cache_logger [simp]: "cache (logger rt level message args st) = cache st"
  by (simp add: logger_def)

lemma proto_logger [simp]: "proto (logger rt level message args st) = proto st"
  by (simp add: logger_def)

lemma console_logger [simp]:
  "console (logger rt level message args st) = Logger_log (CURRENT_LOG_LEVEL rt) level message args (console st)"
  by (simp add: logger_def)

lemma cache_cache_set:
  "map_of (cache (cache_set name data st)) n =
     (if n = name \<and> name \<noteq> ''__proto__'' then Some data else map_of (cache st) n)"
  by (simp add: cache_set_def update_conv')

lemma proto_cache_set:
  "proto (cache_set name data st) = (if name = ''__proto__'' then Some data else proto st)"
  by (simp add: cache_set_def)

lemma store_sheets_lookup:
  "store_sheets rt wb ns st = (Inr (), st') \<Longrightarrow>
   map_of (cache st') n =
     (if n \<in> set ns \<and> n \<noteq> ''__proto__'' then Some (sheet_rows rt wb n) else map_of (cache st) n)"
proof (induction ns arbitrary: st)
  case Nil
  then show ?case by simp
next
  case (Cons a ns)
  then show ?case
    by (auto simp: sheet_rows_def cache_cache_set split: sum.splits)
qed

lemma store_sheets_proto:
  "store_sheets rt wb ns st = (Inr (), st') \<Longrightarrow>
   proto st' = (if ''__proto__'' \<in> set ns then Some (sheet_rows rt wb ''__proto__'') else proto st)"
proof (induction ns arbitrary: st)
  case Nil
  then show ?case by simp
next
  case (Cons a ns)
  then show ?case
    by (auto simp: sheet_rows_def proto_cache_set split: sum.splits)
qed

lemma store_sheets_converted:
  "store_sheets rt wb ns st = (Inr (), st') \<Longrightarrow> n \<in> set ns \<Longrightarrow>
   sheet_to_json rt (Sheets wb n) = Inr (sheet_rows rt wb n)"
proof (induction ns arbitrary: st)
  case Nil
  then show ?case by simp
next
  case (Cons a ns)
  then show ?case
    by (auto simp: sheet_rows_def split: sum.splits)
qed

lemma loadData_Inr:
  assumes "loadData rt p st = (Inr (), st')"
  shows "\<exists>wb st2. readFile rt (resolve_path rt p) = Inr wb \<and>
          store_sheets rt wb (SheetNames wb) (logger rt INFO (''Attempting to load data from: '' @ p) [] st) = (Inr (), st2)
          \<and> cache st' = cache st2 \<and> proto st' = proto st2"
  using assms by (auto simp: loadData_def load_failed_def Let_def split: sum.splits prod.splits)

lemma loadData_readFile_fails:
  "readFile rt (resolve_path rt p) = Inl msg \<Longrightarrow>
   loadData rt p st = (Inl (Error (''DataService failed to load data: '' @ msg)),
      logger rt ERROR (''Failed to load Excel data from '' @ resolve_path rt p @ ''. Error:'') [msg]
        (logger rt INFO (''Attempting to load data from: '' @ p) [] st))"
  by (simp add: loadData_def load_failed_def Let_def)

lemma getData_loaded: "cache st \<noteq> [] \<Longrightarrow> getData rt n st = lookup_sheet rt n st"
  by (simp add: getData_def)

lemma getData_empty:
  "cache st = [] \<Longrightarrow> getData rt n st =
     (case lazy_load rt st of
        (Inl e, st1) \<Rightarrow> (Inl e, st1)
      | (Inr u, st1) \<Rightarrow> lookup_sheet rt n st1)"
  by (simp add: getData_def)

lemma lookup_sheet_stored:
  "map_of (cache st) n = Some rows \<Longrightarrow> lookup_sheet rt n st = (Inr (Rows rows), st)"
  by (simp add: lookup_sheet_def cache_get_def)

lemma lookup_sheet_absent:
  "map_of (cache st) n = None \<Longrightarrow> inherited_get rt st n = None \<Longrightarrow>
   lookup_sheet rt n st = (Inr (Rows []), logger rt ERROR (sheet_not_found n) [] st)"
  by (simp add: lookup_sheet_def cache_get_def)

lemma lookup_sheet_Inr: "\<exists>d. fst (lookup_sheet rt n st) = Inr d"
  by (simp add: lookup_sheet_def split: option.splits)

lemma lookup_sheet_frame:
  "cache (snd (lookup_sheet rt n st)) = cache st \<and> proto (snd (lookup_sheet rt n st)) = proto st"
  by (simp add: lookup_sheet_def split: option.splits)

lemma lookup_sheet_plain:
  "\<not> reaches_prototype rt st n \<Longrightarrow> \<exists>rows. fst (lookup_sheet rt n st) = Inr (Rows rows)"
  by (auto simp: lookup_sheet_def cache_get_def reaches_prototype_def split: option.splits)

lemma getSingleData_of_getData:
  "getSingleData rt n k v st =
     (case getData rt n st of
        (Inl e, st1) \<Rightarrow> (Inl e, st1)
      | (Inr (Rows data), st1) \<Rightarrow> (Inr (find (\<lambda>row. strict_eq (row_get row k) v) data), st1)
      | (Inr other, st1) \<Rightarrow> (Inl (TypeError ''data.find is not a function''), st1))"
  by (simp add: getSingleData_def)

lemma getSingleData_state: "snd (getSingleData rt n k v st) = snd (getData rt n st)"
  by (simp add: getSingleData_def split: prod.splits sum.splits cached.splits)

lemma getSingleData_stored:
  "map_of (cache st) n = Some rows \<Longrightarrow>
   getSingleData rt n k v st = (Inr (find (\<lambda>row. strict_eq (row_get row k) v) rows), st)"
proof -
  assume a: "map_of (cache st) n = Some rows"
  then have "cache st \<noteq> []" by auto
  with a show ?thesis
    by (simp add: getSingleData_def getData_loaded lookup_sheet_stored)
qed

lemma getSingleData_throws_what_load_throws:
  "cache st = [] \<Longrightarrow> fst (lazy_load rt st) = Inl e \<Longrightarrow> fst (getSingleData rt n k v st) = Inl e"
  by (auto simp: getSingleData_def getData_empty split: prod.splits sum.splits)

subsection \<open>Loading\<close>

text \<open>
  C1 (amended). A successful \<open>loadData\<close> stores every sheet of the file (other than one
  named \<open>__proto__\<close>) under its name and keeps every other entry of the cache: the new
  sheets are merged into the cache, the cache is not replaced. A sheet of an earlier load
  whose name is absent from the new file stays in the cache with its old rows. If the
  cache was empty before the call, its keys afterwards are exactly those sheet names.
\<close>

theorem loadData_merges_into_cache:
  assumes "loadData rt p st = (Inr (), st')"
  shows "\<exists>wb. readFile rt (resolve_path rt p) = Inr wb \<and>
           (\<forall>n. map_of (cache st') n =
                 (if n \<in> set (SheetNames wb) \<and> n \<noteq> ''__proto__''
                  then Some (sheet_rows rt wb n) else map_of (cache st) n)) \<and>
           (\<forall>n \<in> set (SheetNames wb). sheet_to_json rt (Sheets wb n) = Inr (sheet_rows rt wb n)) \<and>
           (cache st = [] \<longrightarrow> dom (map_of (cache st')) = set (SheetNames wb) - {''__proto__''})"
proof -
  from loadData_Inr [OF assms] obtain wb st2 where
    rf: "readFile rt (resolve_path rt p) = Inr wb" and
    ss: "store_sheets rt wb (SheetNames wb)
           (logger rt INFO (''Attempting to load data from: '' @ p) [] st) = (Inr (), st2)" and
    c: "cache st' = cache st2"
    by blast
  have look: "map_of (cache st') n =
      (if n \<in> set (SheetNames wb) \<and> n \<noteq> ''__proto__''
       then Some (sheet_rows rt wb n) else map_of (cache st) n)" for n
    using store_sheets_lookup [OF ss, of n] c by simp
  have conv: "\<forall>n \<in> set (SheetNames wb). sheet_to_json rt (Sheets wb n) = Inr (sheet_rows rt wb n)"
    using store_sheets_converted [OF ss] by blast
  have "dom (map_of (cache st')) = set (SheetNames wb) - {''__proto__''}" if "cache st = []"
    using look that by (auto simp: dom_def split: if_splits)
  with rf look conv show ?thesis by blast
qed

text \<open>
  The test data loaded into a cache that holds the sheet \<open>Archive\<close> of an earlier load:
  afterwards the cache holds both sheets.
\<close>

theorem loadData_merges_into_cache_witness:
  "loadData demo_rt ''test-data/test_data.xlsx'' archive_state =
     (Inr (), snd (loadData demo_rt ''test-data/test_data.xlsx'' archive_state)) \<and>
   map_of (cache archive_state) ''Archive'' = Some demo_archive_rows \<and>
   ''Archive'' \<notin> set (SheetNames demo_workbook) \<and>
   map_of (cache (snd (loadData demo_rt ''test-data/test_data.xlsx'' archive_state))) ''Login'' = Some demo_login_rows \<and>
   map_of (cache (snd (loadData demo_rt ''test-data/test_data.xlsx'' archive_state))) ''Archive'' = Some demo_archive_rows"
proof -
  have h: "loadData demo_rt ''test-data/test_data.xlsx'' archive_state =
     (Inr (), snd (loadData demo_rt ''test-data/test_data.xlsx'' archive_state))"
    by (simp add: ds_defs demo_defs nat_to_string.simps)
  have rf: "readFile demo_rt (resolve_path demo_rt ''test-data/test_data.xlsx'') = Inr demo_workbook"
    by (simp add: ds_defs demo_defs)
  from loadData_merges_into_cache [OF h] rf
  have "\<forall>n. map_of (cache (snd (loadData demo_rt ''test-data/test_data.xlsx'' archive_state))) n =
     (if n \<in> set (SheetNames demo_workbook) \<and> n \<noteq> ''__proto__''
      then Some (sheet_rows demo_rt demo_workbook n)
      else map_of (cache archive_state) n)"
    by auto
  then have "map_of (cache (snd (loadData demo_rt ''test-data/test_data.xlsx'' archive_state))) ''Login'' = Some demo_login_rows"
    and "map_of (cache (snd (loadData demo_rt ''test-data/test_data.xlsx'' archive_state))) ''Archive'' = Some demo_archive_rows"
    by (simp_all add: ds_defs demo_defs)
  moreover have "map_of (cache archive_state) ''Archive'' = Some demo_archive_rows"
    and "''Archive'' \<notin> set (SheetNames demo_workbook)"
    by (simp_all add: demo_defs)
  ultimately show ?thesis using h by blast
qed

text \<open>
  C1 as stated fails: after loading the old file and then the test data, the sheet
  \<open>Archive\<close>, which the test data does not have, is still in the cache.
\<close>

theorem load_replaces_cache_counterexample:
  "fst (loadData demo_rt ''/repo/old.xlsx'' empty_state) = Inr () \<and>
   fst (loadData demo_rt ''/repo/test-data/test_data.xlsx'' (snd (loadData demo_rt ''/repo/old.xlsx'' empty_state))) = Inr () \<and>
   readFile demo_rt ''/repo/test-data/test_data.xlsx'' = Inr demo_workbook \<and>
   ''Archive'' \<notin> set (SheetNames demo_workbook) \<and>
   map_of (cache (snd (loadData demo_rt ''/repo/test-data/test_data.xlsx''
                         (snd (loadData demo_rt ''/repo/old.xlsx'' empty_state))))) ''Archive''
     = Some demo_archive_rows"
  by (simp add: ds_defs demo_defs nat_to_string.simps)

text \<open>
  A sheet named \<open>__proto__\<close> is not stored under a key: its rows become the prototype
  of the cache object.
\<close>

lemma proto_sheet_becomes_prototype:
  assumes "loadData rt p st = (Inr (), st')" and "readFile rt (resolve_path rt p) = Inr wb"
  shows "proto st' =
           (if ''__proto__'' \<in> set (SheetNames wb) then Some (sheet_rows rt wb ''__proto__'')
            else proto st)"
proof -
  from loadData_Inr [OF assms(1)] assms(2) obtain st2 where
    ss: "store_sheets rt wb (SheetNames wb)
           (logger rt INFO (''Attempting to load data from: '' @ p) [] st) = (Inr (), st2)" and
    c: "proto st' = proto st2"
    by auto
  from store_sheets_proto [OF ss] c show ?thesis by simp
qed

text \<open>
  C7 (amended). When \<open>XLSX.readFile\<close> throws for the path, \<open>loadData\<close> throws an error
  that carries the message of the cause, and the cache is left untouched: it is exactly
  what it was before the call. No sheet of the failed file is stored and an empty cache
  stays empty, but the sheets of an earlier successful load stay in the cache; it is not
  emptied.
\<close>

theorem loadData_fails_cache_untouched:
  assumes "readFile rt (resolve_path rt p) = Inl msg"
  shows "fst (loadData rt p st) = Inl (Error (''DataService failed to load data: '' @ msg)) \<and>
         cache (snd (loadData rt p st)) = cache st \<and>
         proto (snd (loadData rt p st)) = proto st"
  using assms by (simp add: loadData_readFile_fails)

theorem loadData_fails_cache_untouched_witness:
  "readFile demo_rt (resolve_path demo_rt ''missing.xlsx'') = Inl ''ENOENT: no such file or directory'' \<and>
   fst (loadData demo_rt ''missing.xlsx'' loaded_state)
     = Inl (Error ''DataService failed to load data: ENOENT: no such file or directory'') \<and>
   cache (snd (loadData demo_rt ''missing.xlsx'' loaded_state)) = [(''Login'', demo_login_rows)] \<and>
   cache (snd (loadData demo_rt ''missing.xlsx'' empty_state)) = []"
proof -
  have h: "readFile demo_rt (resolve_path demo_rt ''missing.xlsx'') = Inl ''ENOENT: no such file or directory''"
    by (simp add: demo_rt_def resolve_path_def)
  from loadData_fails_cache_untouched [OF h, of loaded_state]
    loadData_fails_cache_untouched [OF h, of empty_state] h
  show ?thesis
    by (simp add: loaded_state_def empty_state_def)
qed

text \<open>
  C7 as stated fails in its last part: after a successful load, a failed load of another
  file leaves the cache non-empty, and a lookup still returns the row of the earlier
  load, with no sign that the last load failed.
\<close>

theorem failed_load_clears_cache_counterexample:
  "fst (loadData demo_rt ''/repo/test-data/test_data.xlsx'' empty_state) = Inr () \<and>
   fst (loadData demo_rt ''missing.xlsx''
          (snd (loadData demo_rt ''/repo/test-data/test_data.xlsx'' empty_state)))
     = Inl (Error ''DataService failed to load data: ENOENT: no such file or directory'') \<and>
   cache (snd (loadData demo_rt ''missing.xlsx''
                 (snd (loadData demo_rt ''/repo/test-data/test_data.xlsx'' empty_state))))
     = [(''Login'', demo_login_rows)] \<and>
   fst (getSingleData demo_rt ''Login'' ''test_case_id'' (JStr ''TC-LOGIN-001'')
          (snd (loadData demo_rt ''missing.xlsx''
                  (snd (loadData demo_rt ''/repo/test-data/test_data.xlsx'' empty_state)))))
     = Inr (Some (demo_login_rows ! 0))"
  by (simp add: ds_defs demo_defs nat_to_string.simps)

text \<open>
  The cache is written sheet by sheet inside the \<open>try\<close> block. Were the conversion of a
  later sheet to throw, the sheets stored before it would stay in the cache.
\<close>

lemma conversion_failure_keeps_earlier_sheets:
  assumes "sheet_to_json rt (Sheets wb a) = Inr d" and "sheet_to_json rt (Sheets wb b) = Inl msg"
    and "a \<noteq> ''__proto__''"
  shows "fst (store_sheets rt wb [a, b] st) = Inl msg \<and>
         map_of (cache (snd (store_sheets rt wb [a, b] st))) a = Some d"
  using assms by (simp add: cache_cache_set)

subsection \<open>Lookups\<close>

text \<open>
  C2 (amended). With a non-empty cache, and a sheet name that the prototype chain of the
  cache object does not answer, \<open>getSingleData\<close> does not throw: for an absent sheet it
  returns \<open>undefined\<close> after one call of \<open>logger.error\<close> (written to the console unless
  the log level is SILENT), and for a sheet without a matching row it returns
  \<open>undefined\<close> and logs nothing. With an empty cache it first loads the default file and
  throws what that load throws; after a successful load it does not throw for such a
  name either.
\<close>

theorem getSingleData_absent_results:
  "(cache st \<noteq> [] \<and> \<not> reaches_prototype rt st n \<longrightarrow> (\<exists>r. fst (getSingleData rt n k v st) = Inr r)) \<and>
   (cache st \<noteq> [] \<and> map_of (cache st) n = None \<and> inherited_get rt st n = None \<longrightarrow>
      getSingleData rt n k v st = (Inr None, logger rt ERROR (sheet_not_found n) [] st) \<and>
      (CURRENT_LOG_LEVEL rt \<noteq> SILENT \<longrightarrow>
         console (snd (getSingleData rt n k v st)) = console st @ [LogEntry ERROR (sheet_not_found n) []])) \<and>
   (\<forall>rows. map_of (cache st) n = Some rows \<and> (\<forall>r \<in> set rows. \<not> strict_eq (row_get r k) v) \<longrightarrow>
      getSingleData rt n k v st = (Inr None, st)) \<and>
   (cache st = [] \<longrightarrow> (\<forall>e. fst (lazy_load rt st) = Inl e \<longrightarrow> fst (getSingleData rt n k v st) = Inl e)) \<and>
   (cache st = [] \<and> fst (lazy_load rt st) = Inr () \<and> \<not> reaches_prototype rt (snd (lazy_load rt st)) n \<longrightarrow>
      (\<exists>r. fst (getSingleData rt n k v st) = Inr r))"
proof (intro conjI impI allI)
  assume a: "cache st \<noteq> [] \<and> \<not> reaches_prototype rt st n"
  with lookup_sheet_plain [of rt st n] obtain rows where "fst (lookup_sheet rt n st) = Inr (Rows rows)"
    by blast
  with a show "\<exists>r. fst (getSingleData rt n k v st) = Inr r"
    by (cases "lookup_sheet rt n st") (simp add: getSingleData_def getData_loaded)
next
  assume a: "cache st \<noteq> [] \<and> map_of (cache st) n = None \<and> inherited_get rt st n = None"
  then show g: "getSingleData rt n k v st = (Inr None, logger rt ERROR (sheet_not_found n) [] st)"
    by (simp add: getSingleData_def getData_loaded lookup_sheet_absent)
  assume "CURRENT_LOG_LEVEL rt \<noteq> SILENT"
  then show "console (snd (getSingleData rt n k v st)) = console st @ [LogEntry ERROR (sheet_not_found n) []]"
    by (cases "CURRENT_LOG_LEVEL rt") (simp_all add: g Logger_log_def)
next
  fix rows
  assume a: "map_of (cache st) n = Some rows \<and> (\<forall>r \<in> set rows. \<not> strict_eq (row_get r k) v)"
  then have "find (\<lambda>row. strict_eq (row_get row k) v) rows = None"
    by (simp add: find_None_iff)
  with a show "getSingleData rt n k v st = (Inr None, st)"
    by (simp add: getSingleData_stored)
next
  fix e
  assume "cache st = []" and "fst (lazy_load rt st) = Inl e"
  then show "fst (getSingleData rt n k v st) = Inl e"
    by (rule getSingleData_throws_what_load_throws)
next
  assume a: "cache st = [] \<and> fst (lazy_load rt st) = Inr () \<and> \<not> reaches_prototype rt (snd (lazy_load rt st)) n"
  with lookup_sheet_plain [of rt "snd (lazy_load rt st)" n] obtain rows
    where r: "fst (lookup_sheet rt n (snd (lazy_load rt st))) = Inr (Rows rows)"
    by blast
  from a r show "\<exists>r. fst (getSingleData rt n k v st) = Inr r"
    by (cases "lazy_load rt st"; cases "lookup_sheet rt n (snd (lazy_load rt st))")
      (simp add: getSingleData_def getData_empty)
qed

theorem getSingleData_absent_results_witness:
  "cache loaded_state \<noteq> [] \<and> map_of (cache loaded_state) ''Todo'' = None \<and>
   inherited_get demo_rt loaded_state ''Todo'' = None \<and>
   CURRENT_LOG_LEVEL demo_rt \<noteq> SILENT \<and>
   fst (getSingleData demo_rt ''Todo'' ''test_case_id'' (JStr ''TC-TODO-001'') loaded_state) = Inr None \<and>
   console (snd (getSingleData demo_rt ''Todo'' ''test_case_id'' (JStr ''TC-TODO-001'') loaded_state))
     = [LogEntry ERROR (sheet_not_found ''Todo'') []] \<and>
   map_of (cache loaded_state) ''Login'' = Some demo_login_rows \<and>
   \<not> (\<exists>r \<in> set demo_login_rows. strict_eq (row_get r ''test_case_id'') (JStr ''TC-LOGIN-999'')) \<and>
   getSingleData demo_rt ''Login'' ''test_case_id'' (JStr ''TC-LOGIN-999'') loaded_state = (Inr None, loaded_state)"
proof -
  have h1: "cache loaded_state \<noteq> [] \<and> map_of (cache loaded_state) ''Todo'' = None \<and>
      inherited_get demo_rt loaded_state ''Todo'' = None"
    by (simp add: demo_defs inherited_get_def)
  have h2: "CURRENT_LOG_LEVEL demo_rt \<noteq> SILENT"
    by (simp add: demo_rt_def)
  have h3: "map_of (cache loaded_state) ''Login'' = Some demo_login_rows \<and>
     (\<forall>r \<in> set demo_login_rows. \<not> strict_eq (row_get r ''test_case_id'') (JStr ''TC-LOGIN-999''))"
    by (simp add: demo_defs row_get_def)
  have c0: "console loaded_state = []"
    by (simp add: loaded_state_def)
  from h1 h2 getSingleData_absent_results [of loaded_state demo_rt "''Todo''" "''test_case_id''" "JStr ''TC-TODO-001''"]
  have a0: "getSingleData demo_rt ''Todo'' ''test_case_id'' (JStr ''TC-TODO-001'') loaded_state
       = (Inr None, logger demo_rt ERROR (sheet_not_found ''Todo'') [] loaded_state)"
    and a1: "console (snd (getSingleData demo_rt ''Todo'' ''test_case_id'' (JStr ''TC-TODO-001'') loaded_state))
       = console loaded_state @ [LogEntry ERROR (sheet_not_found ''Todo'') []]"
    by blast+
  from a0 have a2: "fst (getSingleData demo_rt ''Todo'' ''test_case_id'' (JStr ''TC-TODO-001'') loaded_state) = Inr None"
    by simp
  from a1 c0 a2
  have a: "fst (getSingleData demo_rt ''Todo'' ''test_case_id'' (JStr ''TC-TODO-001'') loaded_state) = Inr None \<and>
     console (snd (getSingleData demo_rt ''Todo'' ''test_case_id'' (JStr ''TC-TODO-001'') loaded_state))
       = [LogEntry ERROR (sheet_not_found ''Todo'') []]"
    by simp
  from h3 getSingleData_absent_results [of loaded_state demo_rt "''Login''" "''test_case_id''" "JStr ''TC-LOGIN-999''"]
  have b: "getSingleData demo_rt ''Login'' ''test_case_id'' (JStr ''TC-LOGIN-999'') loaded_state = (Inr None, loaded_state)"
    by blast
  from h1 h2 h3 a b show ?thesis by simp
qed

text \<open>
  C2 as stated fails: on an empty cache the lookup loads \<open>test_data.xlsx\<close> from the
  working directory, where no such file exists, and the error of \<open>loadData\<close> reaches the
  caller. The line logged for an absent sheet has level ERROR, not WARN.
\<close>

theorem getSingleData_never_throws_counterexample:
  "cache empty_state = [] \<and>
   fst (getSingleData demo_rt ''Login'' ''test_case_id'' (JStr ''TC-LOGIN-001'') empty_state)
     = Inl (Error ''DataService failed to load data: ENOENT: no such file or directory'') \<and>
   console (snd (getSingleData demo_rt ''Todo'' ''test_case_id'' (JStr ''TC-TODO-001'') loaded_state))
     = [LogEntry ERROR (sheet_not_found ''Todo'') []]"
  by (simp add: ds_defs demo_defs)

text \<open>
  C3. When the sheet is in the cache and some row has \<open>row[key] === value\<close>,
  \<open>getSingleData\<close> returns the first such row in source order, leaves the state as it
  was, and a second call returns the same result.
\<close>

theorem getSingleData_first_match:
  assumes "map_of (cache st) n = Some rows"
    and "\<exists>r \<in> set rows. strict_eq (row_get r k) v"
  shows "\<exists>i < length rows.
           strict_eq (row_get (rows ! i) k) v \<and>
           (\<forall>j < i. \<not> strict_eq (row_get (rows ! j) k) v) \<and>
           getSingleData rt n k v st = (Inr (Some (rows ! i)), st) \<and>
           getSingleData rt n k v (snd (getSingleData rt n k v st)) = getSingleData rt n k v st"
proof -
  from assms(2) obtain x where x: "find (\<lambda>row. strict_eq (row_get row k) v) rows = Some x"
    by (cases "find (\<lambda>row. strict_eq (row_get row k) v) rows") (auto simp: find_None_iff)
  then obtain i where i: "i < length rows" "strict_eq (row_get (rows ! i) k) v" "x = rows ! i"
    "\<forall>j < i. \<not> strict_eq (row_get (rows ! j) k) v"
    unfolding find_Some_iff by blast
  have g: "getSingleData rt n k v st = (Inr (Some (rows ! i)), st)"
    using assms(1) x i(3) by (simp add: getSingleData_stored)
  then have "getSingleData rt n k v (snd (getSingleData rt n k v st)) = getSingleData rt n k v st"
    by simp
  with i g show ?thesis by blast
qed

text \<open>Two rows carry \<open>TC-LOGIN-002\<close>; the lookup returns the earlier one.\<close>

theorem getSingleData_first_match_witness:
  "map_of (cache loaded_state) ''Login'' = Some demo_login_rows \<and>
   (\<exists>r \<in> set demo_login_rows. strict_eq (row_get r ''test_case_id'') (JStr ''TC-LOGIN-002'')) \<and>
   getSingleData demo_rt ''Login'' ''test_case_id'' (JStr ''TC-LOGIN-002'') loaded_state
     = (Inr (Some (demo_login_rows ! 1)), loaded_state)"
proof -
  have a: "map_of (cache loaded_state) ''Login'' = Some demo_login_rows"
    by (simp add: demo_defs)
  have b: "\<exists>r \<in> set demo_login_rows. strict_eq (row_get r ''test_case_id'') (JStr ''TC-LOGIN-002'')"
    by (simp add: demo_defs row_get_def)
  from getSingleData_first_match [OF a b, of demo_rt] obtain i where
    i: "i < length demo_login_rows" "strict_eq (row_get (demo_login_rows ! i) ''test_case_id'') (JStr ''TC-LOGIN-002'')"
      "\<forall>j < i. \<not> strict_eq (row_get (demo_login_rows ! j) ''test_case_id'') (JStr ''TC-LOGIN-002'')"
      "getSingleData demo_rt ''Login'' ''test_case_id'' (JStr ''TC-LOGIN-002'') loaded_state
         = (Inr (Some (demo_login_rows ! i)), loaded_state)"
    by blast
  have "strict_eq (row_get (demo_login_rows ! 1) ''test_case_id'') (JStr ''TC-LOGIN-002'')"
    by (simp add: demo_defs row_get_def)
  with i(3) have "\<not> 1 < i" by blast
  moreover have "\<not> strict_eq (row_get (demo_login_rows ! 0) ''test_case_id'') (JStr ''TC-LOGIN-002'')"
    by (simp add: demo_defs row_get_def)
  with i(2) have "i \<noteq> 0" by metis
  ultimately have "i = 1" by simp
  with i(4) a b show ?thesis by simp
qed

text \<open>
  Outside \<open>loadData\<close> the cache changes only through the lazy load of an empty cache:
  with a non-empty cache neither lookup changes its keys, its rows or its prototype,
  whatever the sheet name and whether the lookup returns or throws.
\<close>

lemma lookups_leave_cache:
  "cache (snd (getData rt n st)) = (if cache st = [] then cache (snd (lazy_load rt st)) else cache st) \<and>
   proto (snd (getData rt n st)) = (if cache st = [] then proto (snd (lazy_load rt st)) else proto st) \<and>
   snd (getSingleData rt n k v st) = snd (getData rt n st)"
proof (cases "cache st = []")
  case True
  then show ?thesis
    by (cases "lazy_load rt st")
      (auto simp: getData_empty getSingleData_state lookup_sheet_frame split: sum.splits)
next
  case False
  then show ?thesis
    by (simp add: getData_loaded getSingleData_state lookup_sheet_frame)
qed

text \<open>
  A name the prototype chain answers with one of its members is returned by \<open>getData\<close>
  as it is, without a log line, and \<open>getSingleData\<close> throws on it.
\<close>

lemma inherited_member_breaks_lookup:
  assumes "cache st \<noteq> []" and "map_of (cache st) n = None" and "inherited_get rt st n = Some Member"
  shows "getData rt n st = (Inr Member, st) \<and>
         getSingleData rt n k v st = (Inl (TypeError ''data.find is not a function''), st)"
  using assms by (simp add: getSingleData_def getData_loaded lookup_sheet_def cache_get_def)

text \<open>
  C10 does not hold on the code. With the \<open>Login\<close> sheet loaded, the sheet name
  \<open>toString\<close> is not in the cache; the lookup finds the method every object inherits,
  \<open>getData\<close> hands it on and \<open>getSingleData\<close> throws a TypeError where the claim says it
  returns a result. For \<open>constructor\<close> \<open>getData\<close> returns a function and not rows. The
  cache itself stays as it was.
\<close>

theorem inherited_sheet_name_throws:
  "cache loaded_state \<noteq> [] \<and> map_of (cache loaded_state) ''toString'' = None \<and>
   getSingleData demo_rt ''toString'' ''test_case_id'' (JStr ''TC-LOGIN-001'') loaded_state
     = (Inl (TypeError ''data.find is not a function''), loaded_state) \<and>
   getData demo_rt ''constructor'' loaded_state = (Inr Member, loaded_state)"
  by (simp add: ds_defs demo_defs)


section \<open>Properties of the configuration\<close>

lemmas config_defs = getConfig_def baseConfig_def Let_def or_default_def parseInt_def parse_digits_def
  digits_value_def is_space_def is_digit_def base_url_variable_def


lemma ENV_getConfig: "ENV (getConfig penv) = or_default (penv ''NODE_ENV'') ''local''"
  by (simp add: getConfig_def baseConfig_def Let_def)

lemma or_default_Some: "v \<noteq> [] \<Longrightarrow> or_default (Some v) d = v"
  by (simp add: or_default_def)

text \<open>
  C6 (amended). In every profile a non-empty \<open>TIMEOUT\<close>, \<open>BROWSER\<close>, \<open>VIEWPORT_WIDTH\<close>,
  \<open>VIEWPORT_HEIGHT\<close> and the base-URL variable of the profile reach the settings object in
  place of the default (the numeric ones through \<open>parseInt\<close>). \<open>SLOW_MO\<close> does so in the
  production, staging and development profiles; the local profile sets it to 50 whatever
  the variable holds.
\<close>

theorem getConfig_variables_over_defaults:
  assumes "v \<noteq> []"
  shows "(penv ''TIMEOUT'' = Some v \<longrightarrow> TIMEOUT (getConfig penv) = parseInt v) \<and>
         (penv ''BROWSER'' = Some v \<longrightarrow> BROWSER (getConfig penv) = v) \<and>
         (penv ''VIEWPORT_WIDTH'' = Some v \<longrightarrow> VIEWPORT_WIDTH (getConfig penv) = parseInt v) \<and>
         (penv ''VIEWPORT_HEIGHT'' = Some v \<longrightarrow> VIEWPORT_HEIGHT (getConfig penv) = parseInt v) \<and>
         (penv (base_url_variable (ENV (getConfig penv))) = Some v \<longrightarrow> BASE_URL (getConfig penv) = v) \<and>
         (penv ''SLOW_MO'' = Some v \<longrightarrow>
            SLOW_MO (getConfig penv) =
              (if ENV (getConfig penv) \<in> {''production'', ''staging'', ''development''}
               then parseInt v else Whole 50))"
proof (intro conjI impI)
  assume "penv ''TIMEOUT'' = Some v"
  then show "TIMEOUT (getConfig penv) = parseInt v"
    using assms by (simp add: getConfig_def baseConfig_def Let_def or_default_Some)
next
  assume "penv ''BROWSER'' = Some v"
  then show "BROWSER (getConfig penv) = v"
    using assms by (simp add: getConfig_def baseConfig_def Let_def or_default_Some)
next
  assume "penv ''VIEWPORT_WIDTH'' = Some v"
  then show "VIEWPORT_WIDTH (getConfig penv) = parseInt v"
    using assms by (simp add: getConfig_def baseConfig_def Let_def or_default_Some)
next
  assume "penv ''VIEWPORT_HEIGHT'' = Some v"
  then show "VIEWPORT_HEIGHT (getConfig penv) = parseInt v"
    using assms by (simp add: getConfig_def baseConfig_def Let_def or_default_Some)
next
  assume "penv (base_url_variable (ENV (getConfig penv))) = Some v"
  then show "BASE_URL (getConfig penv) = v"
    using assms
    by (simp add: ENV_getConfig base_url_variable_def getConfig_def baseConfig_def Let_def
        or_default_Some split: if_splits)
next
  assume "penv ''SLOW_MO'' = Some v"
  then show "SLOW_MO (getConfig penv) =
      (if ENV (getConfig penv) \<in> {''production'', ''staging'', ''development''}
       then parseInt v else Whole 50)"
    using assms by (simp add: getConfig_def baseConfig_def Let_def or_default_Some)
qed

text \<open>The staging profile with three variables set.\<close>

theorem getConfig_variables_over_defaults_witness:
  "''5000'' \<noteq> [] \<and> staging_env ''TIMEOUT'' = Some ''5000'' \<and>
   TIMEOUT (getConfig staging_env) = Whole 5000 \<and>
   staging_env ''SLOW_MO'' = Some ''100'' \<and> SLOW_MO (getConfig staging_env) = Whole 100 \<and>
   staging_env (base_url_variable (ENV (getConfig staging_env))) = Some ''https://stage.test'' \<and>
   BASE_URL (getConfig staging_env) = ''https://stage.test''"
proof -
  have t: "staging_env ''TIMEOUT'' = Some ''5000''" and s: "staging_env ''SLOW_MO'' = Some ''100''"
    and e: "ENV (getConfig staging_env) = ''staging''"
    by (simp_all add: staging_env_def ENV_getConfig or_default_def)
  have u: "staging_env (base_url_variable (ENV (getConfig staging_env))) = Some ''https://stage.test''"
    unfolding e by (simp add: base_url_variable_def staging_env_def)
  have p: "parseInt ''5000'' = Whole 5000" "parseInt ''100'' = Whole 100"
    by (simp_all add: config_defs)
  from t getConfig_variables_over_defaults [of "''5000''" staging_env]
  have a: "TIMEOUT (getConfig staging_env) = Whole 5000"
    by (simp add: p)
  from s getConfig_variables_over_defaults [of "''100''" staging_env]
  have b: "SLOW_MO (getConfig staging_env) = Whole 100"
    unfolding e by (simp add: p)
  from u getConfig_variables_over_defaults [of "''https://stage.test''" staging_env]
  have c: "BASE_URL (getConfig staging_env) = ''https://stage.test''"
    by simp
  from t s u a b c show ?thesis by simp
qed

text \<open>
  C6 as stated fails for \<open>HEADLESS\<close> and, in the local profile, for \<open>SLOW_MO\<close>: the value
  the switch assigns replaces the one read from the variable. A variable set to the empty
  string gives way to the default.
\<close>

theorem env_overrides_profile_counterexample:
  "staging_env ''HEADLESS'' = Some ''false'' \<and> HEADLESS (getConfig staging_env) = True \<and>
   local_env ''HEADLESS'' = Some ''true'' \<and> HEADLESS (getConfig local_env) = False \<and>
   local_env ''SLOW_MO'' = Some ''100'' \<and> parseInt ''100'' = Whole 100 \<and>
   SLOW_MO (getConfig local_env) = Whole 50 \<and>
   blank_timeout_env ''TIMEOUT'' = Some [] \<and> parseInt [] = NaN \<and>
   TIMEOUT (getConfig blank_timeout_env) = Whole 30000"
  by (simp add: config_defs staging_env_def local_env_def blank_timeout_env_def)

text \<open>
  C8. \<open>getConfig\<close> has no failing path: it is a total function of the process
  environment. For a \<open>NODE_ENV\<close> outside production, staging and development it returns
  what the local profile returns (local base URL, headed, slow motion 50), with the given
  name in the \<open>ENV\<close> field.
\<close>

theorem getConfig_falls_back_to_local:
  assumes "or_default (penv ''NODE_ENV'') ''local'' \<notin> {''production'', ''staging'', ''development''}"
  shows "getConfig penv =
           (getConfig (penv(''NODE_ENV'' \<mapsto> ''local'')))\<lparr>ENV := or_default (penv ''NODE_ENV'') ''local''\<rparr> \<and>
         BASE_URL (getConfig penv) = or_default (penv ''LOCAL_BASE_URL'') ''http://localhost:5173'' \<and>
         HEADLESS (getConfig penv) = False \<and>
         SLOW_MO (getConfig penv) = Whole 50"
  using assms by (simp add: getConfig_def baseConfig_def Let_def or_default_def)

theorem getConfig_falls_back_to_local_witness:
  "or_default (qa_env ''NODE_ENV'') ''local'' \<notin> {''production'', ''staging'', ''development''} \<and>
   getConfig qa_env =
     \<lparr>ENV = ''qa'', BASE_URL = ''http://qa.local'', HEADLESS = False,
      SLOW_MO = Whole 50, TIMEOUT = Whole 30000, BROWSER = ''chromium'',
      VIEWPORT_WIDTH = Whole 1920, VIEWPORT_HEIGHT = Whole 1080,
      ALLURE_RESULTS_DIR = ''allure-results'', SCREENSHOT_ON_FAIL = False\<rparr>"
proof -
  have h: "or_default (qa_env ''NODE_ENV'') ''local'' \<notin> {''production'', ''staging'', ''development''}"
    by (simp add: qa_env_def or_default_def)
  have l: "getConfig (qa_env(''NODE_ENV'' \<mapsto> ''local'')) =
     \<lparr>ENV = ''local'', BASE_URL = ''http://qa.local'', HEADLESS = False,
      SLOW_MO = Whole 50, TIMEOUT = Whole 30000, BROWSER = ''chromium'',
      VIEWPORT_WIDTH = Whole 1920, VIEWPORT_HEIGHT = Whole 1080,
      ALLURE_RESULTS_DIR = ''allure-results'', SCREENSHOT_ON_FAIL = False\<rparr>"
    by (simp add: config_defs qa_env_def)
  have n: "or_default (qa_env ''NODE_ENV'') ''local'' = ''qa''"
    by (simp add: qa_env_def or_default_def)
  from h getConfig_falls_back_to_local [of qa_env]
  have "getConfig qa_env =
      (getConfig (qa_env(''NODE_ENV'' \<mapsto> ''local'')))\<lparr>ENV := or_default (qa_env ''NODE_ENV'') ''local''\<rparr>"
    by blast
  then have "getConfig qa_env =
     \<lparr>ENV = ''qa'', BASE_URL = ''http://qa.local'', HEADLESS = False,
      SLOW_MO = Whole 50, TIMEOUT = Whole 30000, BROWSER = ''chromium'',
      VIEWPORT_WIDTH = Whole 1920, VIEWPORT_HEIGHT = Whole 1080,
      ALLURE_RESULTS_DIR = ''allure-results'', SCREENSHOT_ON_FAIL = False\<rparr>"
    by (simp add: l n)
  with h show ?thesis by blast
qed


section \<open>Properties of the login assertion\<close>

lemma replace_first_prefix: "replace_first pat rep (pat @ s) = rep @ s"
proof (cases "pat @ s")
  case Nil
  then show ?thesis by simp
next
  case (Cons a list)
  have p: "prefix pat (a # list)"
    unfolding Cons [symmetric] by simp
  have d: "drop (length pat) (a # list) = s"
    unfolding Cons [symmetric] by simp
  from p d have "replace_first pat rep (a # list) = rep @ s"
    by simp
  then show ?thesis
    unfolding Cons [symmetric] .
qed

text \<open>
  C4 (amended). A string starting with \<open>Success\<close> takes the success branch (the landmark
  header text). A string starting with \<open>Error:\<close> takes the error branch, and for a value
  \<open>Error: <msg>\<close> that branch asks that the error message is displayed and contains
  \<open><msg>\<close> and that the URL still contains \<open>/login\<close>. Any other non-empty string raises
  the unknown-format error. A missing or empty value raises \<open>Expected result not set in
  test data.\<close> instead.
\<close>

theorem login_result_routes_by_prefix:
  "(prefix ''Success'' s \<longrightarrow> login_result_should_match (JStr s) = Inr success_branch) \<and>
   (prefix ''Error:'' s \<longrightarrow> (\<exists>m. login_result_should_match (JStr s) = Inr (error_branch m))) \<and>
   login_result_should_match (JStr (''Error: '' @ msg)) = Inr (error_branch msg) \<and>
   (s \<noteq> [] \<and> \<not> prefix ''Success'' s \<and> \<not> prefix ''Error:'' s \<longrightarrow>
      login_result_should_match (JStr s) = Inl (Error (''Unknown expected result format: '' @ s))) \<and>
   login_result_should_match (JStr []) = Inl (Error ''Expected result not set in test data.'') \<and>
   login_result_should_match JUndefined = Inl (Error ''Expected result not set in test data.'')"
proof (intro conjI impI)
  assume "prefix ''Success'' s"
  then show "login_result_should_match (JStr s) = Inr success_branch"
    by (auto simp: login_result_should_match_def)
next
  assume "prefix ''Error:'' s"
  then show "\<exists>m. login_result_should_match (JStr s) = Inr (error_branch m)"
    by (auto simp: login_result_should_match_def prefix_def)
next
  have "replace_first ''Error: '' [] (''Error: '' @ msg) = msg"
    using replace_first_prefix [of "''Error: ''" "[]" msg] by simp
  then show "login_result_should_match (JStr (''Error: '' @ msg)) = Inr (error_branch msg)"
    by (simp add: login_result_should_match_def)
next
  assume "s \<noteq> [] \<and> \<not> prefix ''Success'' s \<and> \<not> prefix ''Error:'' s"
  then show "login_result_should_match (JStr s) = Inl (Error (''Unknown expected result format: '' @ s))"
    by (simp add: login_result_should_match_def)
qed (simp_all add: login_result_should_match_def)

theorem login_result_routes_by_prefix_witness:
  "prefix ''Success'' ''Success'' \<and>
   login_result_should_match (JStr ''Success'') = Inr success_branch \<and>
   login_result_should_match (JStr ''Error: Invalid credentials'') = Inr (error_branch ''Invalid credentials'') \<and>
   ''Pending'' \<noteq> [] \<and> \<not> prefix ''Success'' ''Pending'' \<and> \<not> prefix ''Error:'' ''Pending'' \<and>
   login_result_should_match (JStr ''Pending'') = Inl (Error ''Unknown expected result format: Pending'')"
proof -
  have a: "prefix ''Success'' ''Success''" by simp
  have b: "''Pending'' \<noteq> [] \<and> \<not> prefix ''Success'' ''Pending'' \<and> \<not> prefix ''Error:'' ''Pending''"
    by simp
  from a login_result_routes_by_prefix [of "''Success''" "''Invalid credentials''"]
  have c: "login_result_should_match (JStr ''Success'') = Inr success_branch"
    by blast
  from login_result_routes_by_prefix [of "''Success''" "''Invalid credentials''"]
  have d: "login_result_should_match (JStr ''Error: Invalid credentials'') = Inr (error_branch ''Invalid credentials'')"
    by simp
  from b login_result_routes_by_prefix [of "''Pending''" "[]"]
  have e: "login_result_should_match (JStr ''Pending'') = Inl (Error ''Unknown expected result format: Pending'')"
    by simp
  from a b c d e show ?thesis by simp
qed

text \<open>
  C4 as stated fails: a row without \<open>expected_result\<close> starts with neither prefix, and
  the error it raises is not the unknown-format error; a numeric cell raises a TypeError.
\<close>

theorem other_value_unknown_format_counterexample:
  "login_result_should_match JUndefined = Inl (Error ''Expected result not set in test data.'') \<and>
   login_result_should_match JUndefined \<noteq> Inl (Error ''Unknown expected result format: undefined'') \<and>
   login_result_should_match (JNum (Whole 200)) = Inl (TypeError ''expectedResult.startsWith is not a function'')"
  by (simp add: login_result_should_match_def)

text \<open>
  Without the blank after the colon the pattern \<open>Error: \<close> is not found, and the
  expected message keeps the prefix.
\<close>

lemma error_prefix_without_blank:
  "login_result_should_match (JStr ''Error:timeout'') = Inr (error_branch ''Error:timeout'')"
  by (simp add: login_result_should_match_def)


section \<open>Properties of the scenario generator\<close>

lemma forEach_rows_blocks:
  "forEach_rows big data index featureContent =
     featureContent @ concat (map (\<lambda>(i, row). scenario_block big i row) (enumerate index data))"
  by (induction data arbitrary: index featureContent) simp_all

text \<open>
  \<open>nat_to_string\<close> writes the decimal numeral of a number: digits only, no leading zero
  except for 0 itself, and the value of the digits is the number.
\<close>

lemma digit_char_cases:
  assumes "d < 10"
  shows "int (of_char (digit_char d)) - 48 = int d \<and> digit_char d \<in> set ''0123456789'' \<and>
         (digit_char d = CHR ''0'' \<longrightarrow> d = 0)"
proof -
  from assms have "d \<in> {0, 1, 2, 3, 4, 5, 6, 7, 8, 9}"
    by auto
  then show ?thesis
    by (auto simp: digit_char_def)
qed

lemma digits_value_snoc: "digits_value (z @ [c]) = 10 * digits_value z + (int (of_char c) - 48)"
  by (simp add: digits_value_def)

lemma nat_to_string_value: "digits_value (nat_to_string n) = int n"
proof (induction n rule: nat_to_string.induct)
  case (1 n)
  show ?case
  proof (cases "n < 10")
    case True
    then show ?thesis
      using digit_char_cases [of n] by (simp add: nat_to_string.simps [of n] digits_value_def)
  next
    case False
    with "1" have "digits_value (nat_to_string (n div 10)) = int (n div 10)"
      by simp
    moreover have "int (of_char (digit_char (n mod 10))) - 48 = int (n mod 10)"
      using digit_char_cases [of "n mod 10"] by simp
    moreover have "10 * int (n div 10) + int (n mod 10) = int n"
      by presburger
    ultimately show ?thesis
      using False by (simp add: nat_to_string.simps [of n] digits_value_snoc)
  qed
qed

lemma nat_to_string_digits: "nat_to_string n \<noteq> [] \<and> set (nat_to_string n) \<subseteq> set ''0123456789''"
proof (induction n rule: nat_to_string.induct)
  case (1 n)
  show ?case
  proof (cases "n < 10")
    case True
    then show ?thesis
      using digit_char_cases [of n] by (simp add: nat_to_string.simps [of n])
  next
    case False
    with "1" have "set (nat_to_string (n div 10)) \<subseteq> set ''0123456789''"
      by simp
    moreover have "digit_char (n mod 10) \<in> set ''0123456789''"
      using digit_char_cases [of "n mod 10"] by simp
    ultimately show ?thesis
      using False by (simp add: nat_to_string.simps [of n])
  qed
qed

lemma nat_to_string_no_leading_zero: "hd (nat_to_string n) = CHR ''0'' \<Longrightarrow> n = 0"
proof (induction n rule: nat_to_string.induct)
  case (1 n)
  show ?case
  proof (cases "n < 10")
    case True
    with "1.prems" show ?thesis
      using digit_char_cases [of n] by (simp add: nat_to_string.simps [of n])
  next
    case False
    have "nat_to_string (n div 10) \<noteq> []"
      using nat_to_string_digits by blast
    with False "1.prems" have "hd (nat_to_string (n div 10)) = CHR ''0''"
      by (simp add: nat_to_string.simps [of n])
    with False "1.IH" have "n div 10 = 0"
      by simp
    with False show ?thesis by simp
  qed
qed

text \<open>
  C5. When the data is available and the file can be written, \<open>generateLoginFeature\<close>
  sets the output file to the feature header followed by one scenario block per row, in
  row order and numbered from 1, with the user name and the password of the row put
  into the template as a template literal prints them: a string as it is, a missing
  column as \<open>undefined\<close>, a boolean as \<open>true\<close> or \<open>false\<close>, a safe integer as its decimal
  numeral. The file is set whatever it held before, and a second run on the result
  changes nothing, so the output is the same byte for byte.
\<close>

theorem generateLoginFeature_blocks_idempotent:
  assumes "getLoginTestData g = Inr data" and "write_error g (outputPath g) = None"
  shows "generateLoginFeature g files =
           (Inr (), files(outputPath g \<mapsto>
              ''Feature: Login DDT Tests'' @ [CHR 0x0A] @
              concat (map (\<lambda>(i, row).
                  [CHR 0x0A] @ ''  Scenario: Login test #'' @ nat_to_string (i + 1) @ '' ('' @
                    to_string (Number_toString g) (row_get row ''username'') @ '')'' @ [CHR 0x0A] @
                  ''    Given I login with username '' @ [CHR 0x22] @
                    to_string (Number_toString g) (row_get row ''username'') @ [CHR 0x22] @
                    '' and password '' @ [CHR 0x22] @
                    to_string (Number_toString g) (row_get row ''password'') @ [CHR 0x22] @ [CHR 0x0A] @
                  ''    Then Login should be successful'' @ [CHR 0x0A])
                (enumerate 0 data)))) \<and>
         snd (generateLoginFeature g files') (outputPath g) = snd (generateLoginFeature g files) (outputPath g) \<and>
         generateLoginFeature g (snd (generateLoginFeature g files)) = generateLoginFeature g files \<and>
         to_string (Number_toString g) (JStr s) = s \<and>
         to_string (Number_toString g) JUndefined = ''undefined'' \<and>
         to_string (Number_toString g) (JBool True) = ''true'' \<and>
         to_string (Number_toString g) (JBool False) = ''false'' \<and>
         (safe_integer i \<longrightarrow>
            to_string (Number_toString g) (JNum (Whole i)) =
              (if i < 0 then ''-'' else []) @ nat_to_string (nat \<bar>i\<bar>)) \<and>
         (\<not> safe_integer i \<longrightarrow> to_string (Number_toString g) (JNum (Whole i)) = Number_toString g i) \<and>
         digits_value (nat_to_string m) = int m \<and>
         set (nat_to_string m) \<subseteq> set ''0123456789'' \<and>
         (hd (nat_to_string m) = CHR ''0'' \<longrightarrow> m = 0)"
proof -
  have blocks: "(\<lambda>(i, row). scenario_block (Number_toString g) i row) =
      (\<lambda>(i, row).
          [CHR 0x0A] @ ''  Scenario: Login test #'' @ nat_to_string (i + 1) @ '' ('' @
            to_string (Number_toString g) (row_get row ''username'') @ '')'' @ [CHR 0x0A] @
          ''    Given I login with username '' @ [CHR 0x22] @
            to_string (Number_toString g) (row_get row ''username'') @ [CHR 0x22] @
            '' and password '' @ [CHR 0x22] @
            to_string (Number_toString g) (row_get row ''password'') @ [CHR 0x22] @ [CHR 0x0A] @
          ''    Then Login should be successful'' @ [CHR 0x0A])"
    by (simp add: scenario_block_def newline_def dquote_def fun_eq_iff)
  have content: "forEach_rows (Number_toString g) data 0 feature_header =
      ''Feature: Login DDT Tests'' @ [CHR 0x0A] @
      concat (map (\<lambda>(i, row). scenario_block (Number_toString g) i row) (enumerate 0 data))"
    by (simp add: forEach_rows_blocks feature_header_def newline_def)
  have run: "generateLoginFeature g fs =
      (Inr (), fs(outputPath g \<mapsto> forEach_rows (Number_toString g) data 0 feature_header))" for fs
    using assms by (simp add: generateLoginFeature_def)
  have a: "generateLoginFeature g files =
      (Inr (), files(outputPath g \<mapsto>
         ''Feature: Login DDT Tests'' @ [CHR 0x0A] @
         concat (map (\<lambda>(i, row). scenario_block (Number_toString g) i row) (enumerate 0 data))))"
    by (simp only: run content)
  have b: "snd (generateLoginFeature g files') (outputPath g) = snd (generateLoginFeature g files) (outputPath g)"
    by (simp add: run)
  have c: "generateLoginFeature g (snd (generateLoginFeature g files)) = generateLoginFeature g files"
    by (simp add: run)
  have d: "safe_integer i \<longrightarrow>
      to_string (Number_toString g) (JNum (Whole i)) =
        (if i < 0 then ''-'' else []) @ nat_to_string (nat \<bar>i\<bar>)"
    by (simp add: int_to_string_def)
  have e: "set (nat_to_string m) \<subseteq> set ''0123456789''"
    using nat_to_string_digits by blast
  have f: "hd (nat_to_string m) = CHR ''0'' \<longrightarrow> m = 0"
    using nat_to_string_no_leading_zero by blast
  from a [unfolded blocks] b c d e f nat_to_string_value [of m] show ?thesis
    by simp
qed

text \<open>Four rows, written over an older file.\<close>

theorem generateLoginFeature_blocks_idempotent_witness:
  \<open>getLoginTestData demo_gen = Inr gen_rows \<and>
   write_error demo_gen (outputPath demo_gen) = None \<and>
   outputPath demo_gen = ''/repo/src/features/generated/loginDDT.feature'' \<and>
   snd (generateLoginFeature demo_gen stale_files) ''/repo/src/features/generated/loginDDT.feature'' =
     Some (''Feature: Login DDT Tests\<newline>'' @
           ''\<newline>  Scenario: Login test #1 (admin)\<newline>'' @
           ''    Given I login with username "admin" and password "password"\<newline>'' @
           ''    Then Login should be successful\<newline>'' @
           ''\<newline>  Scenario: Login test #2 (guest)\<newline>'' @
           ''    Given I login with username "guest" and password "12345"\<newline>'' @
           ''    Then Login should be successful\<newline>'' @
           ''\<newline>  Scenario: Login test #3 (undefined)\<newline>'' @
           ''    Given I login with username "undefined" and password "true"\<newline>'' @
           ''    Then Login should be successful\<newline>'' @
           ''\<newline>  Scenario: Login test #4 (1e+21)\<newline>'' @
           ''    Given I login with username "1e+21" and password "1.5"\<newline>'' @
           ''    Then Login should be successful\<newline>'') \<and>
   generateLoginFeature demo_gen (snd (generateLoginFeature demo_gen stale_files))
     = generateLoginFeature demo_gen stale_files\<close>
proof -
  have d: "getLoginTestData demo_gen = Inr gen_rows"
    and w: "write_error demo_gen (outputPath demo_gen) = None"
    and p: "outputPath demo_gen = ''/repo/src/features/generated/loginDDT.feature''"
    and n: "Number_toString demo_gen = (\<lambda>i. ''1e+21'')"
    by (simp_all add: demo_gen_def outputPath_def)
  note t = generateLoginFeature_blocks_idempotent [OF d w, of stale_files stale_files]
  from t have i: "generateLoginFeature demo_gen (snd (generateLoginFeature demo_gen stale_files))
      = generateLoginFeature demo_gen stale_files"
    by blast
  from t have "generateLoginFeature demo_gen stale_files =
      (Inr (), stale_files(outputPath demo_gen \<mapsto>
         ''Feature: Login DDT Tests'' @ [CHR 0x0A] @
         concat (map (\<lambda>(i, row).
             [CHR 0x0A] @ ''  Scenario: Login test #'' @ nat_to_string (i + 1) @ '' ('' @
               to_string (Number_toString demo_gen) (row_get row ''username'') @ '')'' @ [CHR 0x0A] @
             ''    Given I login with username '' @ [CHR 0x22] @
               to_string (Number_toString demo_gen) (row_get row ''username'') @ [CHR 0x22] @
               '' and password '' @ [CHR 0x22] @
               to_string (Number_toString demo_gen) (row_get row ''password'') @ [CHR 0x22] @ [CHR 0x0A] @
             ''    Then Login should be successful'' @ [CHR 0x0A])
           (enumerate 0 gen_rows))))"
    by blast
  then have c: \<open>snd (generateLoginFeature demo_gen stale_files) ''/repo/src/features/generated/loginDDT.feature'' =
     Some (''Feature: Login DDT Tests\<newline>'' @
           ''\<newline>  Scenario: Login test #1 (admin)\<newline>'' @
           ''    Given I login with username "admin" and password "password"\<newline>'' @
           ''    Then Login should be successful\<newline>'' @
           ''\<newline>  Scenario: Login test #2 (guest)\<newline>'' @
           ''    Given I login with username "guest" and password "12345"\<newline>'' @
           ''    Then Login should be successful\<newline>'' @
           ''\<newline>  Scenario: Login test #3 (undefined)\<newline>'' @
           ''    Given I login with username "undefined" and password "true"\<newline>'' @
           ''    Then Login should be successful\<newline>'' @
           ''\<newline>  Scenario: Login test #4 (1e+21)\<newline>'' @
           ''    Given I login with username "1e+21" and password "1.5"\<newline>'' @
           ''    Then Login should be successful\<newline>'')\<close>
    unfolding p n
    by (simp add: gen_rows_def row_get_def nat_to_string.simps digit_char_def safe_integer_def
        int_to_string_def)
  from d w p c i show ?thesis by blast
qed


section \<open>Properties of the session context\<close>

text \<open>
  C9. On a world whose browser was never opened \<open>closeBrowser\<close> returns without an error
  and changes nothing, and on a world without a page \<open>takeScreenshot\<close> returns
  \<open>undefined\<close> without an error, without a call to the driver and without a log line.
\<close>

theorem close_and_screenshot_tolerate_absent_session:
  "(browser w = None \<longrightarrow> closeBrowser d w = (Inr (), w)) \<and>
   (page w = None \<longrightarrow> takeScreenshot d scenarioName w = (Inr None, w))"
  by (simp add: closeBrowser_def takeScreenshot_def)

theorem close_and_screenshot_tolerate_absent_session_witness:
  "browser fresh_world = None \<and> page fresh_world = None \<and>
   closeBrowser demo_driver fresh_world = (Inr (), fresh_world) \<and>
   takeScreenshot demo_driver ''Login fails'' fresh_world = (Inr None, fresh_world)"
proof -
  have h: "browser fresh_world = None" "page fresh_world = None"
    by (simp_all add: fresh_world_def)
  with close_and_screenshot_tolerate_absent_session [of fresh_world demo_driver "''Login fails''"]
  show ?thesis by blast
qed

end
